theory Spec2Isabelle
  imports Main "HOL-Library.AList" "HOL-Library.Multiset"
begin

section \<open>Values exchanged with the service and the manifest\<close>

text \<open>
  Every catalog entry, every API page and the manifest are plain JSON values as Python's
  \<^verbatim>\<open>json\<close> module decodes them: \<^verbatim>\<open>None\<close>, booleans, integers, strings, lists and
  dictionaries. A dictionary is an association list in insertion order, looked up with
  \<open>map_of\<close>. Floating-point numbers are not modelled. Strings are byte strings.
\<close>

datatype json =
    JNull
  | JBool bool
  | JInt int
  | JStr string
  | JArr "json list"
  | JObj "(string \<times> json) list"

text \<open>The exceptions that the program lets escape or catches by name.\<close>

datatype error =
    AttributeError
  | TypeError
  | KeyError
  | JSONDecodeError

text \<open>Python truthiness, as used by \<^verbatim>\<open>while next_url\<close>, \<^verbatim>\<open>if not items\<close> and
  \<^verbatim>\<open>if not image_id or not image_url\<close>.\<close>

fun truthy :: "json \<Rightarrow> bool" where
  "truthy JNull = False"
| "truthy (JBool b) = b"
| "truthy (JInt i) = (i \<noteq> 0)"
| "truthy (JStr s) = (s \<noteq> [])"
| "truthy (JArr xs) = (xs \<noteq> [])"
| "truthy (JObj kvs) = (kvs \<noteq> [])"

text \<open>\<^verbatim>\<open>d.get(k, default)\<close>: only a dictionary has the method.\<close>

fun py_get :: "json \<Rightarrow> string \<Rightarrow> json \<Rightarrow> error + json" where
  "py_get (JObj kvs) k d = Inr (case map_of kvs k of None \<Rightarrow> d | Some v \<Rightarrow> v)"
| "py_get _ k d = Inl AttributeError"

text \<open>\<^verbatim>\<open>d[k]\<close> with a string key: \<^verbatim>\<open>KeyError\<close> on a dictionary without the key,
  \<^verbatim>\<open>TypeError\<close> on every other value.\<close>

fun py_getitem :: "json \<Rightarrow> string \<Rightarrow> error + json" where
  "py_getitem (JObj kvs) k = (case map_of kvs k of None \<Rightarrow> Inl KeyError | Some v \<Rightarrow> Inr v)"
| "py_getitem _ k = Inl TypeError"

text \<open>Iterating a value, as \<^verbatim>\<open>list.extend\<close> does: a list gives its elements, a dictionary
  its keys, a string its characters; nothing else is iterable.\<close>

fun py_iter :: "json \<Rightarrow> error + json list" where
  "py_iter (JArr xs) = Inr xs"
| "py_iter (JObj kvs) = Inr (map (\<lambda>kv. JStr (fst kv)) kvs)"
| "py_iter (JStr s) = Inr (map (\<lambda>c. JStr [c]) s)"
| "py_iter _ = Inl TypeError"

subsection \<open>Rendering values as text\<close>

text \<open>
  \<^verbatim>\<open>str(x)\<close> and the f-string \<^verbatim>\<open>f"{x}"\<close> give the same text for every value here: a
  string is itself, every other value is its \<^verbatim>\<open>repr\<close>. The \<^verbatim>\<open>repr\<close> of a string
  follows CPython for ASCII text; bytes above 127 are left as they are.
\<close>

definition digit_char :: "nat \<Rightarrow> char" where
  "digit_char d = ''0123456789abcdef'' ! d"

function str_nat :: "nat \<Rightarrow> string" where
  "str_nat n = (if n < 10 then [digit_char n] else str_nat (n div 10) @ [digit_char (n mod 10)])"
  by pat_completeness auto
termination
  by (relation "measure id") auto

declare str_nat.simps [simp del]

definition str_int :: "int \<Rightarrow> string" where
  "str_int i = (if i < 0 then CHR ''-'' # str_nat (nat (- i)) else str_nat (nat i))"

definition repr_char :: "char \<Rightarrow> char \<Rightarrow> string" where
  "repr_char q c =
     (if c = q \<or> c = CHR 0x5C then [CHR 0x5C, c]
      else if c = CHR 0x09 then [CHR 0x5C, CHR ''t'']
      else if c = CHR 0x0A then [CHR 0x5C, CHR ''n'']
      else if c = CHR 0x0D then [CHR 0x5C, CHR ''r'']
      else if (of_char c :: nat) < 32 \<or> (of_char c :: nat) = 127
        then [CHR 0x5C, CHR ''x'', digit_char (of_char c div 16), digit_char (of_char c mod 16)]
      else [c])"

definition repr_str :: "string \<Rightarrow> string" where
  "repr_str s =
     (let q = (if CHR 0x27 \<in> set s \<and> CHR 0x22 \<notin> set s then CHR 0x22 else CHR 0x27)
      in q # concat (map (repr_char q) s) @ [q])"

fun py_join :: "string \<Rightarrow> string list \<Rightarrow> string" where
  "py_join sep [] = []"
| "py_join sep [x] = x"
| "py_join sep (x # y # ys) = x @ sep @ py_join sep (y # ys)"

fun py_repr :: "json \<Rightarrow> string" where
  "py_repr JNull = ''None''"
| "py_repr (JBool b) = (if b then ''True'' else ''False'')"
| "py_repr (JInt i) = str_int i"
| "py_repr (JStr s) = repr_str s"
| "py_repr (JArr xs) = ''['' @ py_join '', '' (map py_repr xs) @ '']''"
| "py_repr (JObj kvs) =
     ''{'' @ py_join '', '' (map (\<lambda>(k, v). repr_str k @ '': '' @ py_repr v) kvs) @ ''}''"

fun py_str :: "json \<Rightarrow> string" where
  "py_str (JStr s) = s"
| "py_str v = py_repr v"

section \<open>Metadata crawler\<close>

text \<open>
  \<^verbatim>\<open>requests.get\<close> followed by \<^verbatim>\<open>raise_for_status\<close> and \<^verbatim>\<open>response.json()\<close> has four
  outcomes. The first three raise a \<^verbatim>\<open>requests.exceptions.RequestException\<close> (the
  decode error is one since requests 2.27), the last gives the decoded body.
\<close>

datatype response =
    NetworkError
  | BadStatus
  | MalformedBody
  | Body json

text \<open>A request is the URL and the query parameters, sent on the first page only. The
  service answers the \<open>n\<close>-th request of a run as it pleases.\<close>

type_synonym request = "json \<times> json option"
type_synonym service = "nat \<Rightarrow> request \<Rightarrow> response"

definition API_BASE_URL :: string where
  "API_BASE_URL = ''https://civitai.com/api/v1/images''"

text \<open>
  What one pass of the loop body does with a decoded body, lines 36 to 43: an exception
  that is no \<^verbatim>\<open>RequestException\<close> escapes, an empty \<^verbatim>\<open>items\<close> breaks the loop, and
  otherwise the items are appended and \<^verbatim>\<open>next_url\<close> is replaced.
\<close>

datatype page_outcome =
    Raises error
  | Breaks
  | Continues "json list" json

definition read_page :: "json \<Rightarrow> page_outcome" where
  "read_page data =
     (case py_get data ''items'' (JArr []) of
        Inl e \<Rightarrow> Raises e
      | Inr items \<Rightarrow>
         (if \<not> truthy items then Breaks
          else (case py_iter items of
             Inl e \<Rightarrow> Raises e
           | Inr xs \<Rightarrow>
              (case py_get data ''metadata'' (JObj []) of
                 Inl e \<Rightarrow> Raises e
               | Inr metadata \<Rightarrow>
                  (case py_get metadata ''nextPage'' JNull of
                     Inl e \<Rightarrow> Raises e
                   | Inr next_page \<Rightarrow> Continues xs next_page)))))"

text \<open>
  The \<^verbatim>\<open>while next_url\<close> loop of \<^verbatim>\<open>fetch_all_image_metadata\<close>. The state is the
  number of requests made, \<^verbatim>\<open>next_url\<close>, \<^verbatim>\<open>is_first_page\<close> and \<^verbatim>\<open>all_images\<close>. The
  result is \<open>None\<close> when the loop never ends, \<open>Some (Inl e)\<close> when an exception
  escapes, and \<open>Some (Inr all_images)\<close> on return.
\<close>

partial_function (option) crawl_loop ::
  "service \<Rightarrow> json \<Rightarrow> nat \<Rightarrow> json \<Rightarrow> bool \<Rightarrow> json list \<Rightarrow> (error + json list) option"
where
  "crawl_loop srv params n next_url is_first_page all_images =
     (if \<not> truthy next_url then Some (Inr all_images)
      else (case srv n (next_url, if is_first_page then Some params else None) of
          NetworkError \<Rightarrow> Some (Inr all_images)
        | BadStatus \<Rightarrow> Some (Inr all_images)
        | MalformedBody \<Rightarrow> Some (Inr all_images)
        | Body data \<Rightarrow>
           (case read_page data of
              Raises e \<Rightarrow> Some (Inl e)
            | Breaks \<Rightarrow> Some (Inr all_images)
            | Continues xs next_page \<Rightarrow>
                crawl_loop srv params (Suc n) next_page False (all_images @ xs))))"

definition fetch_all_image_metadata :: "service \<Rightarrow> json \<Rightarrow> (error + json list) option" where
  "fetch_all_image_metadata srv params =
     crawl_loop srv params 0 (JStr API_BASE_URL) True []"

section \<open>Catalogs and the diff\<close>

text \<open>
  A catalog is a Python dictionary from identifier to entry: an association list in
  insertion order. Assigning to a key that is present replaces its value in place, a new
  key goes to the end, which is \<open>AList.update\<close>.
\<close>

type_synonym catalog = "(string \<times> json) list"

text \<open>\<^verbatim>\<open>{str(img['id']): img for img in current_image_list}\<close>\<close>

fun dict_of_images :: "catalog \<Rightarrow> json list \<Rightarrow> error + catalog" where
  "dict_of_images acc [] = Inr acc"
| "dict_of_images acc (img # imgs) =
     (case py_getitem img ''id'' of
        Inl e \<Rightarrow> Inl e
      | Inr i \<Rightarrow> dict_of_images (AList.update (py_str i) img acc) imgs)"

definition current_images_map_of :: "json list \<Rightarrow> error + catalog" where
  "current_images_map_of current_image_list = dict_of_images [] current_image_list"

text \<open>\<^verbatim>\<open>set(d.keys())\<close>. Python leaves the iteration order of a set open; the model
  lists each key once, in the order of the dictionary.\<close>

definition key_set :: "catalog \<Rightarrow> string list" where
  "key_set d = remdups (map fst d)"

text \<open>Lines 173 to 177 of \<^verbatim>\<open>main\<close>: the two set differences and the entries looked up
  for them.\<close>

definition new_image_ids :: "catalog \<Rightarrow> catalog \<Rightarrow> string list" where
  "new_image_ids old_manifest current_images_map =
     filter (\<lambda>i. i \<notin> set (key_set old_manifest)) (key_set current_images_map)"

definition deleted_image_ids :: "catalog \<Rightarrow> catalog \<Rightarrow> string list" where
  "deleted_image_ids old_manifest current_images_map =
     filter (\<lambda>i. i \<notin> set (key_set current_images_map)) (key_set old_manifest)"

definition new_images_of :: "catalog \<Rightarrow> catalog \<Rightarrow> json list" where
  "new_images_of old_manifest current_images_map =
     map (\<lambda>i. the (map_of current_images_map i)) (new_image_ids old_manifest current_images_map)"

definition deleted_images_data_of :: "catalog \<Rightarrow> catalog \<Rightarrow> json list" where
  "deleted_images_data_of old_manifest current_images_map =
     map (\<lambda>i. the (map_of old_manifest i)) (deleted_image_ids old_manifest current_images_map)"

text \<open>The identifier under which \<^verbatim>\<open>main\<close> files an entry: \<^verbatim>\<open>str(img['id'])\<close>.\<close>

definition entry_key :: "json \<Rightarrow> string option" where
  "entry_key img = (case py_getitem img ''id'' of Inl e \<Rightarrow> None | Inr i \<Rightarrow> Some (py_str i))"

text \<open>A catalog is keyed by identifier when every entry sits under its own identifier.
  Every catalog that \<^verbatim>\<open>main\<close> builds or saves is.\<close>

definition keyed_by_id :: "catalog \<Rightarrow> bool" where
  "keyed_by_id d = list_all (\<lambda>(k, img). entry_key img = Some k) d"

section \<open>The outside world\<close>

text \<open>
  A file holds bytes or, for an archive written by \<^verbatim>\<open>zipfile\<close>, its members in the order
  they were added. The file system maps a path to the file stored there. Directories are
  not modelled: every file operation has the effect it has when the operating system
  lets it succeed, so \<^verbatim>\<open>os.makedirs\<close> and \<^verbatim>\<open>os.rmdir\<close> change nothing.
\<close>

datatype node =
    Data string
  | Zip "(string \<times> node) list"

type_synonym fs = "string \<rightharpoonup> node"

text \<open>\<^verbatim>\<open>os.path.join(a, b)\<close> on POSIX.\<close>

definition path_join :: "string \<Rightarrow> string \<Rightarrow> string" where
  "path_join a b =
     (if b \<noteq> [] \<and> hd b = CHR ''/'' then b
      else if a = [] \<or> last a = CHR ''/'' then a @ b
      else a @ ''/'' @ b)"

text \<open>\<^verbatim>\<open>open(path, 'w')\<close> creates the file or empties it; \<^verbatim>\<open>f.write\<close> appends.\<close>

definition open_w :: "fs \<Rightarrow> string \<Rightarrow> fs" where
  "open_w fs path = fs(path \<mapsto> Data [])"

definition write_text :: "fs \<Rightarrow> string \<Rightarrow> string \<Rightarrow> fs" where
  "write_text fs path text =
     (case fs path of
        Some (Data old) \<Rightarrow> fs(path \<mapsto> Data (old @ text))
      | _ \<Rightarrow> fs)"

text \<open>A decoded picture, as far as the program looks at it: its PIL mode.\<close>

record image =
  mode :: string
  pixels :: string

text \<open>
  What the program calls and does not define: the listing endpoint, the binary fetch
  (\<open>None\<close> for any exception of \<^verbatim>\<open>requests.get\<close> or \<^verbatim>\<open>raise_for_status\<close>), the
  decoder (\<open>None\<close> where \<^verbatim>\<open>Image.open\<close> or the decoding it defers raises), the pixels
  that a conversion to RGB gives, the JPEG encoder (\<open>None\<close> where it raises, as it does
  for a mode it cannot write), the \<^verbatim>\<open>json\<close> module (\<open>None\<close> for a decode error), and
  the clock as the two texts \<^verbatim>\<open>strftime\<close> makes of it. Output on the terminal is not
  modelled.
\<close>

record world =
  api_get :: service
  image_get :: "json \<Rightarrow> string option"
  image_open :: "string \<Rightarrow> image option"
  rgb_pixels :: "image \<Rightarrow> string"
  jpeg_encode :: "image \<Rightarrow> int \<Rightarrow> string option"
  json_dumps :: "json \<Rightarrow> string"
  json_loads :: "string \<Rightarrow> json option"
  utc_timestamp :: string
  utc_date :: string

section \<open>Manifest store\<close>

text \<open>
  \<^verbatim>\<open>load_manifest\<close>: without a file at the path the result is the empty dictionary;
  otherwise whatever \<^verbatim>\<open>json.load\<close> makes of the file, or its decode error. The bytes of
  an archive are no JSON text. \<^verbatim>\<open>save_manifest\<close> opens the path for writing and dumps
  the data into it.
\<close>

definition load_manifest :: "world \<Rightarrow> fs \<Rightarrow> string \<Rightarrow> error + json" where
  "load_manifest w fs manifest_path =
     (case fs manifest_path of
        None \<Rightarrow> Inr (JObj [])
      | Some (Data text) \<Rightarrow>
         (case json_loads w text of
            None \<Rightarrow> Inl JSONDecodeError
          | Some data \<Rightarrow> Inr data)
      | Some (Zip members) \<Rightarrow> Inl JSONDecodeError)"

definition save_manifest :: "world \<Rightarrow> fs \<Rightarrow> string \<Rightarrow> json \<Rightarrow> fs" where
  "save_manifest w fs manifest_path data =
     write_text (open_w fs manifest_path) manifest_path (json_dumps w data)"

text \<open>The file system a run leaves behind when it dies inside \<^verbatim>\<open>save_manifest\<close> after
  \<open>n\<close> bytes of the text have reached the file.\<close>

definition save_manifest_interrupted :: "world \<Rightarrow> fs \<Rightarrow> string \<Rightarrow> json \<Rightarrow> nat \<Rightarrow> fs" where
  "save_manifest_interrupted w fs manifest_path data n =
     write_text (open_w fs manifest_path) manifest_path (take n (json_dumps w data))"

section \<open>Report emitter\<close>

text \<open>A loop of \<^verbatim>\<open>f.write\<close> calls inside \<^verbatim>\<open>with open(...)\<close>: when a line raises, what
  was written before it stays in the file.\<close>

fun write_each :: "(json \<Rightarrow> error + string) \<Rightarrow> json list \<Rightarrow> string \<Rightarrow> error option \<times> string" where
  "write_each line [] out = (None, out)"
| "write_each line (img # imgs) out =
     (case line img of
        Inl e \<Rightarrow> (Some e, out)
      | Inr text \<Rightarrow> write_each line imgs (out @ text))"

definition new_image_line :: "json \<Rightarrow> error + string" where
  "new_image_line img =
     (case py_getitem img ''id'' of
        Inl e \<Rightarrow> Inl e
      | Inr i \<Rightarrow>
         (case py_getitem img ''url'' of
            Inl e \<Rightarrow> Inl e
          | Inr u \<Rightarrow> Inr (''- ID: '' @ py_str i @ '', URL: '' @ py_str u @ [CHR 0x0A])))"

definition deleted_image_line :: "json \<Rightarrow> error + string" where
  "deleted_image_line img =
     (case py_getitem img ''id'' of
        Inl e \<Rightarrow> Inl e
      | Inr i \<Rightarrow>
         (case py_getitem img ''username'' of
            Inl e \<Rightarrow> Inl e
          | Inr u \<Rightarrow> Inr (''- ID: '' @ py_str i @ '', Username: '' @ py_str u @ [CHR 0x0A])))"

definition id_line :: "json \<Rightarrow> error + string" where
  "id_line img =
     (case py_getitem img ''id'' of
        Inl e \<Rightarrow> Inl e
      | Inr i \<Rightarrow> Inr (py_str i @ [CHR 0x0A]))"

text \<open>The fixed text of the summary, in UTF-8.\<close>

definition summary_title :: string where
  "summary_title = ''# Civitai '' @ [CHR 0xE5, CHR 0x90, CHR 0x8C, CHR 0xE6, CHR 0xAD, CHR 0xA5,
     CHR 0xE6, CHR 0x8A, CHR 0xA5, CHR 0xE5, CHR 0x91, CHR 0x8A] @ '' - ''"

definition label_new_count :: string where
  "label_new_count = ''- **'' @ [CHR 0xE6, CHR 0x96, CHR 0xB0, CHR 0xE5, CHR 0xA2, CHR 0x9E,
     CHR 0xE5, CHR 0x9B, CHR 0xBE, CHR 0xE7, CHR 0x89, CHR 0x87] @ ''**: ''"

definition label_deleted_count :: string where
  "label_deleted_count = ''- **'' @ [CHR 0xE5, CHR 0x88, CHR 0xA0, CHR 0xE9, CHR 0x99, CHR 0xA4,
     CHR 0xE5, CHR 0x9B, CHR 0xBE, CHR 0xE7, CHR 0x89, CHR 0x87] @ ''**: ''"

definition unit_zhang :: string where
  "unit_zhang = '' '' @ [CHR 0xE5, CHR 0xBC, CHR 0xA0, CHR 0x0A]"

definition heading_new :: string where
  "heading_new = ''## '' @ [CHR 0xE6, CHR 0x96, CHR 0xB0, CHR 0xE5, CHR 0xA2, CHR 0x9E, CHR 0xE5,
     CHR 0x9B, CHR 0xBE, CHR 0xE7, CHR 0x89, CHR 0x87, CHR 0xE8, CHR 0xAF, CHR 0xA6, CHR 0xE6,
     CHR 0x83, CHR 0x85, CHR 0x0A]"

definition heading_deleted :: string where
  "heading_deleted = [CHR 0x0A] @ ''## '' @ [CHR 0xE5, CHR 0x88, CHR 0xA0, CHR 0xE9, CHR 0x99,
     CHR 0xA4, CHR 0xE5, CHR 0x9B, CHR 0xBE, CHR 0xE7, CHR 0x89, CHR 0x87, CHR 0xE8, CHR 0xAF,
     CHR 0xA6, CHR 0xE6, CHR 0x83, CHR 0x85, CHR 0x0A]"

definition line_none :: string where
  "line_none = [CHR 0xE6, CHR 0x97, CHR 0xA0, CHR 0x0A]"

text \<open>The writes into \<^verbatim>\<open>summary.md\<close>, with the exception that ended them, if any.\<close>

definition summary_text :: "world \<Rightarrow> json list \<Rightarrow> json list \<Rightarrow> error option \<times> string" where
  "summary_text w new_images deleted_images_data =
     (let head = summary_title @ utc_timestamp w @ [CHR 0x0A, CHR 0x0A]
            @ label_new_count @ str_nat (length new_images) @ unit_zhang
            @ label_deleted_count @ str_nat (length deleted_images_data) @ unit_zhang @ [CHR 0x0A]
            @ heading_new;
          first_part = (if new_images \<noteq> [] then write_each new_image_line new_images head
                        else (None, head @ line_none))
      in case fst first_part of
           Some e \<Rightarrow> first_part
         | None \<Rightarrow>
            (if deleted_images_data \<noteq> []
             then write_each deleted_image_line deleted_images_data (snd first_part @ heading_deleted)
             else (None, snd first_part @ heading_deleted @ line_none)))"

definition generate_reports :: "world \<Rightarrow> fs \<Rightarrow> string \<Rightarrow> json list \<Rightarrow> json list \<Rightarrow> error option \<times> fs" where
  "generate_reports w fs reports_dir new_images deleted_images_data =
     (let summary_path = path_join reports_dir ''summary.md'';
          summary = summary_text w new_images deleted_images_data;
          fs1 = write_text (open_w fs summary_path) summary_path (snd summary)
      in case fst summary of
           Some e \<Rightarrow> (Some e, fs1)
         | None \<Rightarrow>
            (let new_path = path_join reports_dir ''new_images_ids.txt'';
                 new_ids = write_each id_line new_images [];
                 fs2 = write_text (open_w fs1 new_path) new_path (snd new_ids)
             in case fst new_ids of
                  Some e \<Rightarrow> (Some e, fs2)
                | None \<Rightarrow>
                   (let deleted_path = path_join reports_dir ''deleted_images_ids.txt'';
                        deleted_ids = write_each id_line deleted_images_data [];
                        fs3 = write_text (open_w fs2 deleted_path) deleted_path (snd deleted_ids)
                    in (fst deleted_ids, fs3))))"

section \<open>Asset pipeline\<close>

text \<open>The global \<^verbatim>\<open>download_progress\<close> dictionary with its keys \<^verbatim>\<open>count\<close> and
  \<^verbatim>\<open>total\<close>.\<close>

record progress =
  count_n :: nat
  total_n :: nat

text \<open>\<^verbatim>\<open>download_and_convert_image\<close> returns \<^verbatim>\<open>None\<close> after a conversion and a message,
  never empty, otherwise.\<close>

datatype unit_result =
    Converted
  | Message

text \<open>\<^verbatim>\<open>img.convert('RGB')\<close> gives a picture of mode RGB.\<close>

definition convert_rgb :: "world \<Rightarrow> image \<Rightarrow> image" where
  "convert_rgb w img = img\<lparr>mode := ''RGB'', pixels := rgb_pixels w img\<rparr>"

text \<open>Lines 69 and 70: the picture that goes to the encoder.\<close>

definition flattened :: "world \<Rightarrow> image \<Rightarrow> image" where
  "flattened w img = (if mode img = ''RGBA'' then convert_rgb w img else img)"

definition jpeg_name :: "json \<Rightarrow> json \<Rightarrow> string" where
  "jpeg_name username image_id = py_str username @ ''_'' @ py_str image_id @ ''.jpeg''"

text \<open>
  One unit of work on the file system and the counter, run on its own. Both increments,
  line 77 and line 83, happen inside \<^verbatim>\<open>with progress_lock\<close>. When the encoder raises, PIL
  has already opened the target: a file that was there is left empty, a new one is
  removed again.
\<close>

definition download_and_convert_image ::
  "world \<Rightarrow> json \<Rightarrow> string \<Rightarrow> int \<Rightarrow> fs \<times> progress \<Rightarrow> error + unit_result \<times> fs \<times> progress"
where
  "download_and_convert_image w image_info output_path quality st =
     (case py_get image_info ''id'' JNull of
        Inl e \<Rightarrow> Inl e
      | Inr image_id \<Rightarrow>
     (case py_get image_info ''url'' JNull of
        Inl e \<Rightarrow> Inl e
      | Inr image_url \<Rightarrow>
     (case py_get image_info ''username'' (JStr ''unknown'') of
        Inl e \<Rightarrow> Inl e
      | Inr username \<Rightarrow>
         (if \<not> truthy image_id \<or> \<not> truthy image_url then Inr (Message, st)
          else
            (let fs = fst st;
                 counted = (snd st)\<lparr>count_n := count_n (snd st) + 1\<rparr>
             in case image_get w image_url of
                  None \<Rightarrow> Inr (Message, fs, counted)
                | Some content \<Rightarrow>
                   (case image_open w content of
                      None \<Rightarrow> Inr (Message, fs, counted)
                    | Some img \<Rightarrow>
                       (let jpeg_filename = jpeg_name username image_id;
                            jpeg_filepath = path_join output_path jpeg_filename
                        in case jpeg_encode w (flattened w img) quality of
                             None \<Rightarrow>
                               Inr (Message,
                                    (if fs jpeg_filepath = None then fs else open_w fs jpeg_filepath),
                                    counted)
                           | Some bytes \<Rightarrow>
                               Inr (Converted,
                                    write_text (open_w fs jpeg_filepath) jpeg_filepath bytes,
                                    counted))))))))"

text \<open>
  The pool runs every unit. The order in which units finish is open; the model runs them
  in the order of the list it is given. An exception that leaves a unit is kept for
  \<^verbatim>\<open>future.result()\<close>.
\<close>

fun run_units ::
  "world \<Rightarrow> string \<Rightarrow> int \<Rightarrow> json list \<Rightarrow> fs \<times> progress \<Rightarrow> (error + unit_result) list \<times> fs \<times> progress"
where
  "run_units w output_path quality [] st = ([], st)"
| "run_units w output_path quality (img_data # rest) st =
     (case download_and_convert_image w img_data output_path quality st of
        Inl e \<Rightarrow>
          (let later = run_units w output_path quality rest st
           in (Inl e # fst later, snd later))
      | Inr (r, st') \<Rightarrow>
          (let later = run_units w output_path quality rest st'
           in (Inr r # fst later, snd later)))"

text \<open>\<^verbatim>\<open>f"{img_data['username']}_{img_data['id']}.jpeg"\<close>, line 206.\<close>

definition appended_name :: "json \<Rightarrow> error + string" where
  "appended_name img_data =
     (case py_getitem img_data ''username'' of
        Inl e \<Rightarrow> Inl e
      | Inr u \<Rightarrow>
         (case py_getitem img_data ''id'' of
            Inl e \<Rightarrow> Inl e
          | Inr i \<Rightarrow> Inr (jpeg_name u i)))"

text \<open>The \<^verbatim>\<open>except Exception\<close> handler of line 207 formats \<^verbatim>\<open>img_data['id']\<close>, which may
  raise in turn.\<close>

definition report_exception :: "json \<Rightarrow> error option" where
  "report_exception img_data =
     (case py_getitem img_data ''id'' of Inl e \<Rightarrow> Some e | Inr i \<Rightarrow> None)"

text \<open>The \<^verbatim>\<open>as_completed\<close> loop, lines 198 to 208.\<close>

fun collect_results :: "(json \<times> (error + unit_result)) list \<Rightarrow> string list \<Rightarrow> error + string list" where
  "collect_results [] downloaded_filenames = Inr downloaded_filenames"
| "collect_results ((img_data, res) # rest) downloaded_filenames =
     (case res of
        Inr Message \<Rightarrow> collect_results rest downloaded_filenames
      | Inr Converted \<Rightarrow>
         (case appended_name img_data of
            Inr name \<Rightarrow> collect_results rest (downloaded_filenames @ [name])
          | Inl e \<Rightarrow>
             (case report_exception img_data of
                Some e' \<Rightarrow> Inl e'
              | None \<Rightarrow> collect_results rest downloaded_filenames))
      | Inl e \<Rightarrow>
         (case report_exception img_data of
            Some e' \<Rightarrow> Inl e'
          | None \<Rightarrow> collect_results rest downloaded_filenames))"

section \<open>Archiver\<close>

text \<open>\<^verbatim>\<open>create_zip_archive\<close>: one member per listed file that exists, under its listed
  name.\<close>

definition archive_member :: "fs \<Rightarrow> string \<Rightarrow> string \<Rightarrow> (string \<times> node) option" where
  "archive_member fs source_dir filename =
     (case fs (path_join source_dir filename) of
        None \<Rightarrow> None
      | Some file \<Rightarrow> Some (filename, file))"

definition create_zip_archive :: "fs \<Rightarrow> string \<Rightarrow> string \<Rightarrow> string list \<Rightarrow> fs" where
  "create_zip_archive fs source_dir zip_filepath files_to_zip =
     fs(zip_filepath \<mapsto> Zip (List.map_filter (archive_member fs source_dir) files_to_zip))"

section \<open>The run\<close>

record args =
  output_dir :: string
  username :: string
  nsfw :: string
  sort_order :: string
  threads :: nat
  jpeg_quality :: int

definition manifest_path_of :: "args \<Rightarrow> string" where
  "manifest_path_of a =
     path_join (output_dir a) (username a @ ''_'' @ nsfw a @ ''_'' @ sort_order a @ ''_manifest.json'')"

definition reports_dir_of :: "args \<Rightarrow> string" where
  "reports_dir_of a = path_join (output_dir a) ''reports''"

definition temp_download_dir_of :: "args \<Rightarrow> string" where
  "temp_download_dir_of a = path_join (output_dir a) ''new_images_temp''"

definition zip_filepath_of :: "world \<Rightarrow> args \<Rightarrow> string" where
  "zip_filepath_of w a =
     path_join (output_dir a) (''civitai_'' @ username a @ ''_new_'' @ utc_date w @ ''.zip'')"

definition api_params_of :: "args \<Rightarrow> json" where
  "api_params_of a =
     JObj [(''username'', JStr (username a)), (''limit'', JInt 200),
           (''sort'', JStr (sort_order a)), (''period'', JStr ''AllTime''),
           (''nsfw'', JStr (nsfw a))]"

text \<open>\<^verbatim>\<open>old_manifest.keys()\<close> needs a dictionary.\<close>

fun dict_items :: "json \<Rightarrow> error + catalog" where
  "dict_items (JObj kvs) = Inr kvs"
| "dict_items _ = Inl AttributeError"

text \<open>A path names a file of directory \<open>d\<close> when it is \<open>d\<close>, a slash and a name
  without a slash. \<^verbatim>\<open>os.listdir\<close> and \<^verbatim>\<open>os.remove\<close> empty the directory.\<close>

definition in_directory :: "string \<Rightarrow> string \<Rightarrow> bool" where
  "in_directory d path =
     (take (length d + 1) path = d @ ''/''
      \<and> drop (length d + 1) path \<noteq> []
      \<and> CHR ''/'' \<notin> set (drop (length d + 1) path))"

definition clear_directory :: "fs \<Rightarrow> string \<Rightarrow> fs" where
  "clear_directory fs d = (\<lambda>path. if in_directory d path then None else fs path)"

text \<open>Step 3 of \<^verbatim>\<open>main\<close>, lines 181 to 185.\<close>

definition report_step :: "world \<Rightarrow> args \<Rightarrow> fs \<Rightarrow> json list \<Rightarrow> json list \<Rightarrow> error option \<times> fs" where
  "report_step w a fs new_images deleted_images_data =
     (if new_images \<noteq> [] \<or> deleted_images_data \<noteq> []
      then generate_reports w fs (reports_dir_of a) new_images deleted_images_data
      else (None, fs))"

text \<open>Step 4 of \<^verbatim>\<open>main\<close>, lines 187 to 220.\<close>

definition download_step :: "world \<Rightarrow> args \<Rightarrow> fs \<Rightarrow> json list \<Rightarrow> error option \<times> fs" where
  "download_step w a fs new_images =
     (if new_images \<noteq> [] then
        (let temp_download_dir = temp_download_dir_of a;
             start = \<lparr>count_n = 0, total_n = length new_images\<rparr>;
             pool = run_units w temp_download_dir (jpeg_quality a) new_images (fs, start);
             fs1 = fst (snd pool)
         in case collect_results (zip new_images (fst pool)) [] of
              Inl e \<Rightarrow> (Some e, fs1)
            | Inr downloaded_filenames \<Rightarrow>
               (let fs2 = (if downloaded_filenames \<noteq> []
                           then create_zip_archive fs1 temp_download_dir (zip_filepath_of w a)
                                  downloaded_filenames
                           else fs1)
                in (None, clear_directory fs2 temp_download_dir)))
      else (None, fs))"

definition main :: "world \<Rightarrow> args \<Rightarrow> fs \<Rightarrow> (error option \<times> fs) option" where
  "main w a fs =
     (let manifest_path = manifest_path_of a
      in case load_manifest w fs manifest_path of
           Inl e \<Rightarrow> Some (Some e, fs)
         | Inr loaded \<Rightarrow>
        (case dict_items loaded of
           Inl e \<Rightarrow> Some (Some e, fs)
         | Inr old_manifest \<Rightarrow>
        (case fetch_all_image_metadata (api_get w) (api_params_of a) of
           None \<Rightarrow> None
         | Some (Inl e) \<Rightarrow> Some (Some e, fs)
         | Some (Inr current_image_list) \<Rightarrow>
        (case current_images_map_of current_image_list of
           Inl e \<Rightarrow> Some (Some e, fs)
         | Inr current_images_map \<Rightarrow>
            (let new_images = new_images_of old_manifest current_images_map;
                 deleted_images_data = deleted_images_data_of old_manifest current_images_map;
                 reported = report_step w a fs new_images deleted_images_data
             in case fst reported of
                  Some e \<Rightarrow> Some (Some e, snd reported)
                | None \<Rightarrow>
                   (let downloaded = download_step w a (snd reported) new_images
                    in case fst downloaded of
                         Some e \<Rightarrow> Some (Some e, snd downloaded)
                       | None \<Rightarrow>
                           Some (None, save_manifest w (snd downloaded) manifest_path
                                         (JObj current_images_map))))))))"

section \<open>The pool as interleaved steps\<close>


text \<open>
  Where a worker thread stands in \<^verbatim>\<open>download_and_convert_image\<close>: before the test of
  line 59 (with the outcome the test will have), in front of \<^verbatim>\<open>with progress_lock\<close> on
  line 76 or 82, inside it before reading \<^verbatim>\<open>count\<close>, between the read and the write of
  \<^verbatim>\<open>count += 1\<close> (with the value read), after the write, returned after the increment,
  or returned from line 60.
\<close>

datatype worker =
    Start bool
  | Waiting
  | Holding
  | Read nat
  | Written
  | Done
  | Skipped

text \<open>
  The lock, the shared counter and the workers. One step is one step of one worker, and
  any worker that can move may move next: a worker returns from line 60; it gets through
  lines 62 to 74, or to the exception that ends them, and arrives at the lock; it enters
  \<^verbatim>\<open>with progress_lock\<close>, which it can only while no worker is inside; it reads
  \<^verbatim>\<open>count\<close>; it writes the value it read plus one; it leaves the \<^verbatim>\<open>with\<close> block and
  returns.
\<close>

type_synonym pool = "bool \<times> nat \<times> worker multiset"

inductive pool_step :: "pool \<Rightarrow> pool \<Rightarrow> bool" where
  skips: "pool_step (l, c, add_mset (Start False) M) (l, c, add_mset Skipped M)"
| works: "pool_step (l, c, add_mset (Start True) M) (l, c, add_mset Waiting M)"
| acquires: "pool_step (False, c, add_mset Waiting M) (True, c, add_mset Holding M)"
| reads: "pool_step (l, c, add_mset Holding M) (l, c, add_mset (Read c) M)"
| writes: "pool_step (l, c, add_mset (Read v) M) (l, Suc v, add_mset Written M)"
| releases: "pool_step (l, c, add_mset Written M) (False, c, add_mset Done M)"

code_pred pool_step .


text \<open>Workers inside the lock, workers whose increment has been written, workers of
  entries that pass line 59, and workers that have returned.\<close>

fun holding :: "worker \<Rightarrow> bool" where
  "holding Holding = True"
| "holding (Read v) = True"
| "holding Written = True"
| "holding _ = False"

fun counted :: "worker \<Rightarrow> bool" where
  "counted Written = True"
| "counted Done = True"
| "counted _ = False"

fun complete :: "worker \<Rightarrow> bool" where
  "complete (Start b) = b"
| "complete Skipped = False"
| "complete _ = True"

fun finished :: "worker \<Rightarrow> bool" where
  "finished Done = True"
| "finished Skipped = True"
| "finished _ = False"

definition pool_inv :: "nat \<Rightarrow> pool \<Rightarrow> bool" where
  "pool_inv n s =
     (case s of (l, c, M) \<Rightarrow>
        c = size (filter_mset counted M)
      \<and> size (filter_mset holding M) = (if l then 1 else 0)
      \<and> (\<forall>v. Read v \<in># M \<longrightarrow> v = c)
      \<and> size (filter_mset complete M) = n)"

section \<open>Notions used by the properties\<close>



text \<open>The three files that \<^verbatim>\<open>generate_reports\<close> writes, and the text a directory path
  gets in front of a relative name.\<close>

definition summary_path_of :: "args \<Rightarrow> string" where
  "summary_path_of a = path_join (reports_dir_of a) ''summary.md''"

definition new_ids_path_of :: "args \<Rightarrow> string" where
  "new_ids_path_of a = path_join (reports_dir_of a) ''new_images_ids.txt''"

definition deleted_ids_path_of :: "args \<Rightarrow> string" where
  "deleted_ids_path_of a = path_join (reports_dir_of a) ''deleted_images_ids.txt''"

definition report_paths :: "args \<Rightarrow> string list" where
  "report_paths a = [summary_path_of a, new_ids_path_of a, deleted_ids_path_of a]"

definition dir_prefix :: "string \<Rightarrow> string" where
  "dir_prefix d = (if d = [] \<or> last d = CHR ''/'' then d else d @ ''/'')"

text \<open>An entry with a \<^verbatim>\<open>username\<close> key, the file name of line 72, and the entries whose
  unit returned \<^verbatim>\<open>None\<close>.\<close>

definition has_username :: "json \<Rightarrow> bool" where
  "has_username img_data = (case py_getitem img_data ''username'' of Inl e \<Rightarrow> False | Inr u \<Rightarrow> True)"

definition jpeg_filename_of :: "json \<Rightarrow> string" where
  "jpeg_filename_of image_info =
     jpeg_name (case py_get image_info ''username'' (JStr ''unknown'') of Inl e \<Rightarrow> JNull | Inr u \<Rightarrow> u)
               (case py_get image_info ''id'' JNull of Inl e \<Rightarrow> JNull | Inr i \<Rightarrow> i)"

definition converted_entries :: "json list \<Rightarrow> (error + unit_result) list \<Rightarrow> json list" where
  "converted_entries imgs results = map fst (filter (\<lambda>p. snd p = Inr Converted) (zip imgs results))"

section \<open>Sample inputs\<close>

definition entry :: "int \<Rightarrow> string \<Rightarrow> json" where
  "entry i note =
     JObj [(''id'', JInt i), (''url'', JStr ''https://image.civitai.com/x.png''),
           (''username'', JStr ''ann''), (''note'', JStr note)]"

text \<open>Two catalogs that are not keyed by identifier.\<close>

definition loose_prior :: catalog where
  "loose_prior = [(''1'', entry 2 ''x'')]"

definition loose_current :: catalog where
  "loose_current = [(''2'', entry 2 ''x'')]"

definition prior_123 :: catalog where
  "prior_123 = [(''1'', entry 1 ''a''), (''2'', entry 2 ''b''), (''3'', entry 3 ''c'')]"

definition current_234 :: catalog where
  "current_234 = [(''2'', entry 2 ''changed''), (''3'', entry 3 ''c''), (''4'', entry 4 ''d'')]"






text \<open>A run of the creator \<^verbatim>\<open>ann\<close> into the directory \<^verbatim>\<open>out\<close>.\<close>

definition sample_args :: args where
  "sample_args = \<lparr>output_dir = ''out'', username = ''ann'', nsfw = ''X'', sort_order = ''Newest'',
                   threads = 16, jpeg_quality = 85\<rparr>"

text \<open>A stand-in for the \<^verbatim>\<open>json\<close> module that knows the texts of three manifests. The
  sample world serves two pictures, one of mode RGBA and one of mode LA, and its encoder
  takes the modes that PIL's JPEG writer takes.\<close>

definition sample_dumps :: "json \<Rightarrow> string" where
  "sample_dumps v = (if v = JObj current_234 then ''<234>'' else if v = JObj prior_123 then ''<123>'' else ''{}'')"

definition sample_loads :: "string \<Rightarrow> json option" where
  "sample_loads s =
     (if s = ''<234>'' then Some (JObj current_234)
      else if s = ''<123>'' then Some (JObj prior_123)
      else if s = ''{}'' then Some (JObj [])
      else if s = ''[]'' then Some (JArr [])
      else None)"

definition page_234 :: json where
  "page_234 =
     JObj [(''items'', JArr [entry 2 ''changed'', entry 3 ''c'', entry 4 ''d'']),
           (''metadata'', JObj [])]"

definition small_service :: service where
  "small_service n req = Body page_234"

definition sample_world :: world where
  "sample_world =
     \<lparr>api_get = small_service,
      image_get = (\<lambda>url. if url = JStr ''https://image.civitai.com/x.png'' then Some ''png-bytes''
                         else if url = JStr ''https://image.civitai.com/grey.png'' then Some ''la-bytes''
                         else None),
      image_open = (\<lambda>content. if content = ''png-bytes'' then Some \<lparr>mode = ''RGBA'', pixels = ''rgba''\<rparr>
                             else if content = ''la-bytes'' then Some \<lparr>mode = ''LA'', pixels = ''la''\<rparr>
                             else None),
      rgb_pixels = (\<lambda>img. ''rgb''),
      jpeg_encode = (\<lambda>img q. if mode img \<in> set [''1'', ''L'', ''RGB'', ''RGBX'', ''CMYK'', ''YCbCr'']
                            then Some (''jpeg:'' @ pixels img) else None),
      json_dumps = sample_dumps,
      json_loads = sample_loads,
      utc_timestamp = ''2024-05-01 12:00:00 UTC'',
      utc_date = ''20240501''\<rparr>"

text \<open>File systems: a manifest cut short, a manifest that holds a list, the manifest of
  identifiers 1, 2, 3, and the manifest of identifiers 2, 3, 4.\<close>

definition corrupt_fs :: fs where
  "corrupt_fs = [''out/ann_X_Newest_manifest.json'' \<mapsto> Data ''<12'']"

definition list_fs :: fs where
  "list_fs = [''out/ann_X_Newest_manifest.json'' \<mapsto> Data ''[]'']"

definition old_fs :: fs where
  "old_fs = [''out/ann_X_Newest_manifest.json'' \<mapsto> Data ''<123>'']"


text \<open>Entries without a \<^verbatim>\<open>username\<close>, with a picture that cannot be fetched, with a
  picture of mode LA, and without a \<^verbatim>\<open>url\<close>.\<close>

definition anonymous_entry :: json where
  "anonymous_entry = JObj [(''id'', JInt 5), (''url'', JStr ''https://image.civitai.com/x.png'')]"

definition broken_entry :: json where
  "broken_entry =
     JObj [(''id'', JInt 6), (''url'', JStr ''https://image.civitai.com/gone.png''),
           (''username'', JStr ''ann'')]"

definition grey_entry :: json where
  "grey_entry =
     JObj [(''id'', JInt 10), (''url'', JStr ''https://image.civitai.com/grey.png''),
           (''username'', JStr ''ann'')]"

definition no_url_entry :: json where
  "no_url_entry = JObj [(''id'', JInt 9), (''username'', JStr ''ann'')]"

section \<open>Properties of the diff\<close>

text \<open>The lists of lines 173 to 177 as sets, and the catalogs that \<^verbatim>\<open>main\<close> builds.\<close>

lemma set_key_set: "set (key_set d) = fst ` set d"
  by (simp add: key_set_def)

lemma in_keys_lookup: "k \<in> fst ` set d \<Longrightarrow> \<exists>v. map_of d k = Some v"
  by (cases "map_of d k") (auto simp: map_of_eq_None_iff)

lemma lookup_in_keys: "map_of d k = Some v \<Longrightarrow> k \<in> fst ` set d"
  by (metis map_of_eq_None_iff option.distinct(1))

lemma set_new_images_of:
  "set (new_images_of P C) = {e. \<exists>k. map_of C k = Some e \<and> k \<notin> fst ` set P}"
proof (intro set_eqI iffI)
  fix e assume "e \<in> set (new_images_of P C)"
  then obtain k where k: "k \<in> fst ` set C" "k \<notin> fst ` set P" and e: "e = the (map_of C k)"
    by (auto simp: new_images_of_def new_image_ids_def set_key_set)
  from in_keys_lookup[OF k(1)] e have "map_of C k = Some e" by auto
  with k show "e \<in> {e. \<exists>k. map_of C k = Some e \<and> k \<notin> fst ` set P}" by blast
next
  fix e assume "e \<in> {e. \<exists>k. map_of C k = Some e \<and> k \<notin> fst ` set P}"
  then obtain k where k: "map_of C k = Some e" "k \<notin> fst ` set P" by blast
  from lookup_in_keys[OF k(1)] k(2) have "k \<in> set (new_image_ids P C)"
    by (simp add: new_image_ids_def set_key_set)
  then have "the (map_of C k) \<in> set (new_images_of P C)"
    by (simp add: new_images_of_def)
  with k show "e \<in> set (new_images_of P C)" by simp
qed

lemma set_deleted_images_data_of:
  "set (deleted_images_data_of P C) = {e. \<exists>k. map_of P k = Some e \<and> k \<notin> fst ` set C}"
proof (intro set_eqI iffI)
  fix e assume "e \<in> set (deleted_images_data_of P C)"
  then obtain k where k: "k \<in> fst ` set P" "k \<notin> fst ` set C" and e: "e = the (map_of P k)"
    by (auto simp: deleted_images_data_of_def deleted_image_ids_def set_key_set)
  from in_keys_lookup[OF k(1)] e have "map_of P k = Some e" by auto
  with k show "e \<in> {e. \<exists>k. map_of P k = Some e \<and> k \<notin> fst ` set C}" by blast
next
  fix e assume "e \<in> {e. \<exists>k. map_of P k = Some e \<and> k \<notin> fst ` set C}"
  then obtain k where k: "map_of P k = Some e" "k \<notin> fst ` set C" by blast
  from lookup_in_keys[OF k(1)] k(2) have "k \<in> set (deleted_image_ids P C)"
    by (simp add: deleted_image_ids_def set_key_set)
  then have "the (map_of P k) \<in> set (deleted_images_data_of P C)"
    by (simp add: deleted_images_data_of_def)
  with k show "e \<in> set (deleted_images_data_of P C)" by simp
qed

lemma keyed_lookup: "keyed_by_id d \<Longrightarrow> map_of d k = Some e \<Longrightarrow> entry_key e = Some k"
  by (auto simp: keyed_by_id_def list_all_iff dest!: map_of_SomeD)

lemma set_update_subset: "set (AList.update k v al) \<subseteq> insert (k, v) (set al)"
  by (induction al) auto

lemma keyed_update: "keyed_by_id d \<Longrightarrow> entry_key img = Some k \<Longrightarrow> keyed_by_id (AList.update k img d)"
  using set_update_subset[of k img d] by (auto simp: keyed_by_id_def list_all_iff)

lemma dict_of_images_keyed: "dict_of_images acc xs = Inr d \<Longrightarrow> keyed_by_id acc \<Longrightarrow> keyed_by_id d"
proof (induction xs arbitrary: acc)
  case Nil then show ?case by simp
next
  case (Cons img imgs)
  then show ?case
    by (auto split: sum.splits simp: keyed_update entry_key_def)
qed

lemma current_images_map_keyed: "current_images_map_of xs = Inr d \<Longrightarrow> keyed_by_id d"
  using dict_of_images_keyed[of "[]" xs d] by (simp add: current_images_map_of_def keyed_by_id_def)

lemma ids_disjoint: "set (new_image_ids P C) \<inter> set (deleted_image_ids P C) = {}"
  by (auto simp: new_image_ids_def deleted_image_ids_def set_key_set)

lemma diff_self: "new_images_of P P = [] \<and> deleted_images_data_of P P = []"
  by (simp add: new_images_of_def deleted_images_data_of_def new_image_ids_def deleted_image_ids_def)

lemma shared_ids_untouched:
  "map_of P k = Some p \<Longrightarrow> map_of C k = Some c \<Longrightarrow>
   k \<notin> set (new_image_ids P C) \<and> k \<notin> set (deleted_image_ids P C)"
  using lookup_in_keys[of P k p] lookup_in_keys[of C k c]
  by (simp add: new_image_ids_def deleted_image_ids_def set_key_set)

lemma keyed_entries_disjoint:
  assumes P: "keyed_by_id P" and C: "keyed_by_id C"
  shows "set (new_images_of P C) \<inter> set (deleted_images_data_of P C) = {}"
proof (rule ccontr)
  assume "set (new_images_of P C) \<inter> set (deleted_images_data_of P C) \<noteq> {}"
  then obtain e k k' where "map_of C k = Some e" "k \<notin> fst ` set P" "map_of P k' = Some e" "k' \<notin> fst ` set C"
    unfolding set_new_images_of set_deleted_images_data_of by blast
  with keyed_lookup[OF C] keyed_lookup[OF P] lookup_in_keys show False
    by (metis option.inject)
qed

lemma keyed_shared_entries_untouched:
  assumes P: "keyed_by_id P" and C: "keyed_by_id C"
      and kp: "map_of P k = Some p" and kc: "map_of C k = Some c"
  shows "p \<notin> set (new_images_of P C) \<and> p \<notin> set (deleted_images_data_of P C)
       \<and> c \<notin> set (new_images_of P C) \<and> c \<notin> set (deleted_images_data_of P C)"
proof -
  have kP: "k \<in> fst ` set P" and kC: "k \<in> fst ` set C" using kp kc lookup_in_keys by auto
  have ep: "entry_key p = Some k" and ec: "entry_key c = Some k"
    using kp kc keyed_lookup[OF P] keyed_lookup[OF C] by auto
  have "p \<notin> set (new_images_of P C)" using ep kP keyed_lookup[OF C]
    unfolding set_new_images_of by force
  moreover have "c \<notin> set (new_images_of P C)" using ec kP keyed_lookup[OF C]
    unfolding set_new_images_of by force
  moreover have "p \<notin> set (deleted_images_data_of P C)" using ep kC keyed_lookup[OF P]
    unfolding set_deleted_images_data_of by force
  moreover have "c \<notin> set (deleted_images_data_of P C)" using ec kC keyed_lookup[OF P]
    unfolding set_deleted_images_data_of by force
  ultimately show ?thesis by blast
qed

text \<open>Entries the same under two different keys show why the disjointness of the
  entries needs catalogs keyed by identifier; the identifiers are disjoint regardless.\<close>

lemma keyed_needed:
  "new_images_of loose_prior loose_current = [entry 2 ''x'']
   \<and> deleted_images_data_of loose_prior loose_current = [entry 2 ''x'']
   \<and> \<not> keyed_by_id loose_prior"
  by (simp add: new_images_of_def new_image_ids_def deleted_images_data_of_def deleted_image_ids_def
      key_set_def loose_prior_def loose_current_def keyed_by_id_def entry_key_def entry_def
      str_int_def str_nat.simps digit_char_def)

text \<open>
  Claim C1. The added entries are exactly the entries of the current catalog whose
  identifier the prior catalog lacks, the removed entries are exactly the entries of the
  prior catalog whose identifier the current catalog lacks, the added and the removed
  identifiers are disjoint, the diff of a catalog with itself is empty on both sides, and
  an identifier present in both catalogs is neither added nor removed. For catalogs keyed
  by identifier the added and the removed entries are disjoint as well, and neither
  payload of an identifier present in both is among them, however the two payloads differ.
\<close>

theorem diff_sound:
  "set (new_images_of P C) = {e. \<exists>k. map_of C k = Some e \<and> k \<notin> fst ` set P}
   \<and> set (deleted_images_data_of P C) = {e. \<exists>k. map_of P k = Some e \<and> k \<notin> fst ` set C}
   \<and> set (new_image_ids P C) \<inter> set (deleted_image_ids P C) = {}
   \<and> new_images_of P P = [] \<and> deleted_images_data_of P P = []
   \<and> (\<forall>k p c. map_of P k = Some p \<and> map_of C k = Some c \<longrightarrow>
          k \<notin> set (new_image_ids P C) \<and> k \<notin> set (deleted_image_ids P C))
   \<and> (keyed_by_id P \<and> keyed_by_id C \<longrightarrow>
          set (new_images_of P C) \<inter> set (deleted_images_data_of P C) = {}
        \<and> (\<forall>k p c. map_of P k = Some p \<and> map_of C k = Some c \<longrightarrow>
               p \<notin> set (new_images_of P C) \<and> p \<notin> set (deleted_images_data_of P C)
             \<and> c \<notin> set (new_images_of P C) \<and> c \<notin> set (deleted_images_data_of P C)))"
  using set_new_images_of[of P C] set_deleted_images_data_of[of P C] ids_disjoint[of P C]
    diff_self[of P] shared_ids_untouched[of P _ _ C] keyed_entries_disjoint[of P C]
    keyed_shared_entries_untouched[of P C]
  by (intro conjI allI impI) blast+

theorem diff_sound_witness:
  "keyed_by_id prior_123 \<and> keyed_by_id current_234
   \<and> new_images_of prior_123 current_234 = [entry 4 ''d'']
   \<and> deleted_images_data_of prior_123 current_234 = [entry 1 ''a'']
   \<and> set (new_images_of prior_123 current_234) \<inter> set (deleted_images_data_of prior_123 current_234) = {}
   \<and> entry 2 ''b'' \<notin> set (deleted_images_data_of prior_123 current_234)
   \<and> entry 2 ''changed'' \<notin> set (new_images_of prior_123 current_234)"
proof -
  have p: "keyed_by_id prior_123"
    by (simp add: keyed_by_id_def prior_123_def entry_key_def entry_def str_int_def
        str_nat.simps digit_char_def)
  have c: "keyed_by_id current_234"
    by (simp add: keyed_by_id_def current_234_def entry_key_def entry_def str_int_def
        str_nat.simps digit_char_def)
  have n: "new_images_of prior_123 current_234 = [entry 4 ''d'']"
    by (simp add: new_images_of_def new_image_ids_def key_set_def prior_123_def current_234_def)
  have d: "deleted_images_data_of prior_123 current_234 = [entry 1 ''a'']"
    by (simp add: deleted_images_data_of_def deleted_image_ids_def key_set_def prior_123_def
        current_234_def)
  have b: "map_of prior_123 ''2'' = Some (entry 2 ''b'') \<and> map_of current_234 ''2'' = Some (entry 2 ''changed'')"
    by (simp add: prior_123_def current_234_def)
  from diff_sound[of prior_123 current_234] b p c n d show ?thesis by blast
qed

section \<open>Properties of the crawler\<close>





text \<open>A body that decodes but has another shape than a page is no request failure: the
  exception it causes is not caught, and the crawler raises.\<close>

lemma crawl_raises_on_other_shape:
  assumes "srv 0 (JStr API_BASE_URL, Some params) = Body data" and "read_page data = Raises e"
  shows "fetch_all_image_metadata srv params = Some (Inl e)"
  unfolding fetch_all_image_metadata_def
  by (subst crawl_loop.simps) (simp add: assms API_BASE_URL_def[symmetric], simp add: API_BASE_URL_def)

lemma read_page_not_object:
  "read_page (JArr xs) = Raises AttributeError"
  "read_page (JObj [(''items'', JInt 3)]) = Raises TypeError"
  "read_page (JObj [(''items'', JArr [x]), (''metadata'', JNull)]) = Raises AttributeError"
  by (simp_all add: read_page_def)







section \<open>Properties of the manifest store\<close>

text \<open>Opening a file for writing and writing a text into it leaves exactly that text.\<close>

lemma write_after_open: "write_text (open_w fs path) path text = fs(path \<mapsto> Data text)"
  by (simp add: write_text_def open_w_def)

lemma save_manifest_eq: "save_manifest w fs path data = fs(path \<mapsto> Data (json_dumps w data))"
  by (simp add: save_manifest_def write_after_open)

lemma save_manifest_interrupted_eq:
  "save_manifest_interrupted w fs path data n = fs(path \<mapsto> Data (take n (json_dumps w data)))"
  by (simp add: save_manifest_interrupted_def write_after_open)

lemma sample_manifest_path: "manifest_path_of sample_args = ''out/ann_X_Newest_manifest.json''"
  by (simp add: manifest_path_of_def sample_args_def path_join_def)

text \<open>
  Claim C4. Loading from a path where no file exists gives the empty catalog. Loading a
  file that the \<^verbatim>\<open>json\<close> module cannot parse raises its decode error (the condition
  the specification calls ManifestCorrupt) instead of giving an empty catalog, and the run
  ends there with the file system exactly as it found it. A file that parses to something
  other than a dictionary ends the run one statement later, again with nothing written.
\<close>

theorem load_manifest_missing_or_corrupt:
  "(fs path = None \<longrightarrow> load_manifest w fs path = Inr (JObj []))
   \<and> (fs path = Some (Data text) \<and> json_loads w text = None \<longrightarrow>
        load_manifest w fs path = Inl JSONDecodeError)
   \<and> (fs (manifest_path_of a) = Some (Data text) \<and> json_loads w text = None \<longrightarrow>
        main w a fs = Some (Some JSONDecodeError, fs))
   \<and> (fs (manifest_path_of a) = Some (Data text) \<and> json_loads w text = Some data
        \<and> dict_items data = Inl e \<longrightarrow>
        main w a fs = Some (Some AttributeError, fs))"
  by (cases data) (simp_all add: load_manifest_def main_def)

theorem load_manifest_missing_or_corrupt_witness:
  "load_manifest sample_world Map.empty ''out/ann_X_Newest_manifest.json'' = Inr (JObj [])
   \<and> load_manifest sample_world corrupt_fs ''out/ann_X_Newest_manifest.json'' = Inl JSONDecodeError
   \<and> main sample_world sample_args corrupt_fs = Some (Some JSONDecodeError, corrupt_fs)
   \<and> main sample_world sample_args list_fs = Some (Some AttributeError, list_fs)"
proof -
  have a: "Map.empty ''out/ann_X_Newest_manifest.json'' = (None :: node option)" by simp
  have b: "corrupt_fs ''out/ann_X_Newest_manifest.json'' = Some (Data ''<12'')
           \<and> json_loads sample_world ''<12'' = None"
    by (simp add: corrupt_fs_def sample_world_def sample_loads_def)
  have c: "corrupt_fs (manifest_path_of sample_args) = Some (Data ''<12'')
           \<and> json_loads sample_world ''<12'' = None"
    using b by (simp add: sample_manifest_path)
  have d: "list_fs (manifest_path_of sample_args) = Some (Data ''[]'')
           \<and> json_loads sample_world ''[]'' = Some (JArr [])
           \<and> dict_items (JArr []) = Inl AttributeError"
    by (simp add: sample_manifest_path list_fs_def sample_world_def sample_loads_def)
  from load_manifest_missing_or_corrupt[of Map.empty "''out/ann_X_Newest_manifest.json''"
          sample_world "''<12''" sample_args "JArr []" AttributeError]
    load_manifest_missing_or_corrupt[of corrupt_fs "''out/ann_X_Newest_manifest.json''"
          sample_world "''<12''" sample_args "JArr []" AttributeError]
    load_manifest_missing_or_corrupt[of list_fs "''out/ann_X_Newest_manifest.json''"
          sample_world "''[]''" sample_args "JArr []" AttributeError]
    a b c d
  show ?thesis by blast
qed

text \<open>
  Claim C5, as stated, does not hold: \<^verbatim>\<open>save_manifest\<close> opens the target itself for
  writing. A run that dies after two bytes leaves a truncated manifest at the target path,
  neither the old one nor the new one.
\<close>

theorem save_not_atomic_counterexample:
  "old_fs ''out/ann_X_Newest_manifest.json'' = Some (Data ''<123>'')
   \<and> save_manifest sample_world old_fs ''out/ann_X_Newest_manifest.json'' (JObj current_234)
        ''out/ann_X_Newest_manifest.json'' = Some (Data ''<234>'')
   \<and> save_manifest_interrupted sample_world old_fs ''out/ann_X_Newest_manifest.json'' (JObj current_234) 2
        ''out/ann_X_Newest_manifest.json'' = Some (Data ''<2'')"
  by (simp add: old_fs_def save_manifest_eq save_manifest_interrupted_eq sample_world_def sample_dumps_def)

text \<open>
  Claim C5, amended. Saving writes the serialized catalog straight into the target file,
  which it empties first. No other path is touched: there is no temporary file and no
  rename. When the save completes the target holds the complete text; interrupted after
  \<open>n\<close> bytes it holds the first \<open>n\<close> bytes.
\<close>

theorem save_overwrites_in_place:
  "save_manifest w fs path data path = Some (Data (json_dumps w data))
   \<and> save_manifest_interrupted w fs path data n path = Some (Data (take n (json_dumps w data)))
   \<and> (\<forall>other. other \<noteq> path \<longrightarrow>
         save_manifest w fs path data other = fs other
       \<and> save_manifest_interrupted w fs path data n other = fs other)"
  by (simp add: save_manifest_eq save_manifest_interrupted_eq)

theorem save_overwrites_in_place_witness:
  "save_manifest sample_world old_fs ''out/ann_X_Newest_manifest.json'' (JObj current_234)
        ''out/ann_X_Newest_manifest.json'' = Some (Data ''<234>'')
   \<and> ''out/tmp'' \<noteq> ''out/ann_X_Newest_manifest.json''
   \<and> save_manifest_interrupted sample_world old_fs ''out/ann_X_Newest_manifest.json'' (JObj current_234) 2 ''out/tmp'' = None"
  using save_overwrites_in_place[of sample_world old_fs "''out/ann_X_Newest_manifest.json''" "JObj current_234" 2]
  by (simp add: old_fs_def sample_world_def sample_dumps_def)



section \<open>Properties of the report step\<close>

text \<open>The paths the run writes differ in their last character or in the directory they
  lie in, which gives each step of the run the set of paths it leaves alone.\<close>

lemma last_path_join: "b \<noteq> [] \<Longrightarrow> last (path_join a b) = last b"
  by (simp add: path_join_def)


lemma last_zip_path: "last (zip_filepath_of w a) = CHR ''p''"
  by (simp add: zip_filepath_of_def last_path_join)

lemma last_jpeg_path: "last (path_join d (jpeg_name u i)) = CHR ''g''"
  by (simp add: jpeg_name_def last_path_join)


lemma path_join_relative: "b = [] \<or> hd b \<noteq> CHR ''/'' \<Longrightarrow> path_join a b = dir_prefix a @ b"
  by (auto simp: path_join_def dir_prefix_def)

lemma report_path_shapes:
  "summary_path_of a = dir_prefix (output_dir a) @ ''reports/summary.md''"
  "new_ids_path_of a = dir_prefix (output_dir a) @ ''reports/new_images_ids.txt''"
  "deleted_ids_path_of a = dir_prefix (output_dir a) @ ''reports/deleted_images_ids.txt''"
  "temp_download_dir_of a = dir_prefix (output_dir a) @ ''new_images_temp''"
  by (simp_all add: summary_path_of_def new_ids_path_of_def deleted_ids_path_of_def
      temp_download_dir_of_def reports_dir_of_def path_join_relative)
     (simp_all add: dir_prefix_def)


lemma unit_frame:
  assumes "download_and_convert_image w img dir q (fs, pr) = Inr (r, fs', pr')"
      and "last p \<noteq> CHR ''g''"
  shows "fs' p = fs p"
proof -
  have ne: "\<And>u i. p \<noteq> path_join dir (jpeg_name u i)"
    using assms(2) last_jpeg_path by metis
  show ?thesis
    using assms(1) ne
    by (auto simp: download_and_convert_image_def Let_def write_text_def open_w_def
             split: sum.splits if_splits option.splits)
qed

lemma run_units_frame:
  "last p \<noteq> CHR ''g'' \<Longrightarrow> fst (snd (run_units w dir q imgs (fs, pr))) p = fs p"
proof (induction imgs arbitrary: fs pr)
  case Nil
  then show ?case by simp
next
  case (Cons img imgs)
  show ?case
  proof (cases "download_and_convert_image w img dir q (fs, pr)")
    case (Inl e)
    then show ?thesis using Cons by (simp add: Let_def)
  next
    case (Inr res)
    obtain r fs' pr' where res: "res = (r, fs', pr')" by (cases res) auto
    from unit_frame[OF Inr[unfolded res] Cons.prems] have "fs' p = fs p" .
    with Cons.IH[OF Cons.prems, of fs' pr'] Inr res show ?thesis by (simp add: Let_def)
  qed
qed


lemma generate_reports_frame:
  "p \<notin> set (report_paths a) \<Longrightarrow>
   snd (generate_reports w fs (reports_dir_of a) new_images deleted_images_data) p = fs p"
  by (auto simp: generate_reports_def Let_def write_after_open report_paths_def
        summary_path_of_def new_ids_path_of_def deleted_ids_path_of_def split: option.splits)












section \<open>Properties of the progress counter\<close>









lemma pool_no_deadlock:
  assumes "pool_inv n (l, c, M)" and "p \<in># M" and "\<not> finished p"
  shows "\<exists>s'. pool_step (l, c, M) s'"
proof -
  have stepper: "\<And>q. q \<in># M \<Longrightarrow> (\<exists>b. q = Start b) \<or> holding q \<or> (q = Waiting \<and> \<not> l) \<Longrightarrow> \<exists>s'. pool_step (l, c, M) s'"
  proof -
    fix q assume q: "q \<in># M" and k: "(\<exists>b. q = Start b) \<or> holding q \<or> (q = Waiting \<and> \<not> l)"
    from q obtain M' where M: "M = add_mset q M'" by (meson multi_member_split)
    from k show "\<exists>s'. pool_step (l, c, M) s'"
      unfolding M
      by (cases q) (auto intro: pool_step.intros, (metis (full_types) pool_step.skips pool_step.works)+)
  qed
  show ?thesis
  proof (cases "(\<exists>b. p = Start b) \<or> holding p \<or> (p = Waiting \<and> \<not> l)")
    case True
    then show ?thesis using stepper[OF assms(2)] by blast
  next
    case False
    with assms(3) have pw: "p = Waiting" and l: "l" by (cases p; auto)+
    with assms(1) have "size (filter_mset holding M) = 1" by (simp add: pool_inv_def)
    then obtain q where "q \<in># filter_mset holding M"
      by (metis One_nat_def size_eq_0_iff_empty multiset_nonemptyE zero_neq_one)
    then have "q \<in># M" "holding q" by auto
    then show ?thesis using stepper by blast
  qed
qed



lemma sample_temp_dir: "temp_download_dir_of sample_args = ''out/new_images_temp''"
  by (simp add: temp_download_dir_of_def sample_args_def path_join_def)

lemma sample_units:
  "download_and_convert_image sample_world (entry 4 ''d'') ''out/new_images_temp'' 85 (fs, pr)
     = Inr (Converted, fs(''out/new_images_temp/ann_4.jpeg'' \<mapsto> Data ''jpeg:rgb''), pr\<lparr>count_n := count_n pr + 1\<rparr>)"
  "download_and_convert_image sample_world broken_entry ''out/new_images_temp'' 85 (fs, pr)
     = Inr (Message, fs, pr\<lparr>count_n := count_n pr + 1\<rparr>)"
  "download_and_convert_image sample_world no_url_entry ''out/new_images_temp'' 85 (fs, pr)
     = Inr (Message, fs, pr)"
  "download_and_convert_image sample_world anonymous_entry ''out/new_images_temp'' 85 (fs, pr)
     = Inr (Converted, fs(''out/new_images_temp/unknown_5.jpeg'' \<mapsto> Data ''jpeg:rgb''), pr\<lparr>count_n := count_n pr + 1\<rparr>)"
  by (simp_all add: download_and_convert_image_def entry_def broken_entry_def no_url_entry_def
      anonymous_entry_def sample_world_def flattened_def convert_rgb_def jpeg_name_def
      path_join_def write_text_def open_w_def str_int_def str_nat.simps digit_char_def)



section \<open>The pipeline and the archiver\<close>

text \<open>
  The archive holds one member for each listed name whose file exists, absent files being
  skipped. When every added entry has a \<^verbatim>\<open>username\<close>, the names listed for the archiver
  are the file names of the converted entries, all of these files exist, and the archive
  holds exactly them; when none was converted, no archive is written.
\<close>

lemma unit_keeps_files:
  "download_and_convert_image w img dir q (fs, pr) = Inr (r, fs', pr') \<Longrightarrow> fs p \<noteq> None \<Longrightarrow> fs' p \<noteq> None"
  by (auto simp: download_and_convert_image_def Let_def write_text_def open_w_def
           split: sum.splits if_splits option.splits)

lemma run_units_keeps_files:
  "fs p \<noteq> None \<Longrightarrow> fst (snd (run_units w dir q imgs (fs, pr))) p \<noteq> None"
proof (induction imgs arbitrary: fs pr)
  case Nil
  then show ?case by simp
next
  case (Cons img imgs)
  show ?case
  proof (cases "download_and_convert_image w img dir q (fs, pr)")
    case (Inl e)
    then show ?thesis using Cons by (simp add: Let_def)
  next
    case (Inr res)
    obtain r fs' pr' where res: "res = (r, fs', pr')" by (cases res) auto
    from unit_keeps_files[OF Inr[unfolded res] Cons.prems] have "fs' p \<noteq> None" .
    from Cons.IH[of fs' pr'] this Inr res show ?thesis by (simp add: Let_def)
  qed
qed

lemma converted_unit:
  assumes "download_and_convert_image w img dir q (fs, pr) = Inr (Converted, fs', pr')"
  shows "fs' (path_join dir (jpeg_filename_of img)) \<noteq> None"
    and "has_username img \<Longrightarrow> appended_name img = Inr (jpeg_filename_of img)"
proof -
  obtain kvs where img: "img = JObj kvs"
    using assms by (cases img) (auto simp: download_and_convert_image_def)
  show "fs' (path_join dir (jpeg_filename_of img)) \<noteq> None"
    using assms unfolding img
    by (auto simp: download_and_convert_image_def Let_def write_text_def open_w_def jpeg_filename_of_def
             split: sum.splits if_splits option.splits)
  assume "has_username img"
  then obtain u where u: "map_of kvs ''username'' = Some u"
    unfolding img by (auto simp: has_username_def split: option.splits)
  obtain i where i: "map_of kvs ''id'' = Some i"
    using assms unfolding img
    by (cases "map_of kvs ''id''") (auto simp: download_and_convert_image_def Let_def split: if_splits option.splits)
  show "appended_name img = Inr (jpeg_filename_of img)"
    unfolding img by (simp add: appended_name_def jpeg_filename_of_def u i)
qed

lemma pool_lists_converted:
  assumes "\<forall>img \<in> set imgs. has_username img"
  shows "collect_results (zip imgs (fst (run_units w dir q imgs (fs, pr)))) acc
           = Inr (acc @ map jpeg_filename_of (converted_entries imgs (fst (run_units w dir q imgs (fs, pr)))))
       \<and> (\<forall>img \<in> set (converted_entries imgs (fst (run_units w dir q imgs (fs, pr)))).
             fst (snd (run_units w dir q imgs (fs, pr))) (path_join dir (jpeg_filename_of img)) \<noteq> None)"
  using assms
proof (induction imgs arbitrary: fs pr acc)
  case Nil
  then show ?case by (simp add: converted_entries_def)
next
  case (Cons img imgs)
  have hu: "has_username img" and rest: "\<forall>img \<in> set imgs. has_username img" using Cons.prems by auto
  show ?case
  proof (cases "download_and_convert_image w img dir q (fs, pr)")
    case (Inl e)
    from Inl have False using hu
      by (cases img) (auto simp: download_and_convert_image_def has_username_def Let_def
            split: if_splits option.splits)
    then show ?thesis ..
  next
    case (Inr res)
    obtain r fs' pr' where res: "res = (r, fs', pr')" by (cases res) auto
    note IH = Cons.IH[OF rest, of fs' pr']
    show ?thesis
    proof (cases r)
      case Converted
      note cu = converted_unit[OF Inr[unfolded res Converted]]
      have keep: "fst (snd (run_units w dir q imgs (fs', pr'))) (path_join dir (jpeg_filename_of img)) \<noteq> None"
        using run_units_keeps_files[of fs' "path_join dir (jpeg_filename_of img)" w dir q imgs pr'] cu(1)
        by simp
      show ?thesis
        using Inr res Converted cu(2)[OF hu] keep IH[of "acc @ [jpeg_filename_of img]"]
        by (simp add: Let_def converted_entries_def)
    next
      case Message
      show ?thesis
        using Inr res Message IH[of acc]
        by (simp add: Let_def converted_entries_def)
    qed
  qed
qed

lemma zip_outside_temp: "\<not> in_directory (temp_download_dir_of a) (zip_filepath_of w a)"
proof -
  have "zip_filepath_of w a = dir_prefix (output_dir a) @ ''civitai_'' @ username a @ ''_new_'' @ utc_date w @ ''.zip''"
    by (simp add: zip_filepath_of_def path_join_relative)
  then show ?thesis by (simp add: in_directory_def report_path_shapes)
qed

lemma archive_members:
  "create_zip_archive fs dir zp names zp = Some (Zip (List.map_filter (archive_member fs dir) names))"
  by (simp add: create_zip_archive_def)

lemma archive_all_present:
  "\<forall>n \<in> set names. fs (path_join dir n) \<noteq> None \<Longrightarrow>
   map fst (List.map_filter (archive_member fs dir) names) = names"
  by (induction names) (auto simp: List.map_filter_simps archive_member_def split: option.splits)

lemma archive_skips_absent:
  "map fst (List.map_filter (archive_member fs dir) names) = filter (\<lambda>n. fs (path_join dir n) \<noteq> None) names"
  by (induction names) (auto simp: List.map_filter_simps archive_member_def split: option.splits)

lemma archive_of_named_entries:
  fixes w :: world and a :: args and fs :: fs and new_images :: "json list"
  assumes "\<forall>img \<in> set new_images. has_username img" and "new_images \<noteq> []"
  defines "pool \<equiv> run_units w (temp_download_dir_of a) (jpeg_quality a) new_images
                     (fs, \<lparr>count_n = 0, total_n = length new_images\<rparr>)"
  defines "names \<equiv> map jpeg_filename_of (converted_entries new_images (fst pool))"
  shows "collect_results (zip new_images (fst pool)) [] = Inr names"
    and "fst (download_step w a fs new_images) = None"
    and "names \<noteq> [] \<Longrightarrow> \<exists>members. snd (download_step w a fs new_images) (zip_filepath_of w a) = Some (Zip members)
                              \<and> map fst members = names"
    and "names = [] \<Longrightarrow> snd (download_step w a fs new_images) (zip_filepath_of w a) = fs (zip_filepath_of w a)"
proof -
  note pl = pool_lists_converted[OF assms(1), of w "temp_download_dir_of a" "jpeg_quality a" fs
      "\<lparr>count_n = 0, total_n = length new_images\<rparr>" "[]", folded pool_def, simplified, folded names_def]
  show c: "collect_results (zip new_images (fst pool)) [] = Inr names" using pl by simp
  have present: "\<forall>n \<in> set names. fst (snd pool) (path_join (temp_download_dir_of a) n) \<noteq> None"
    using pl by (auto simp: names_def)
  show "fst (download_step w a fs new_images) = None"
    using assms(2) c by (simp add: download_step_def Let_def pool_def[symmetric])
  {
    assume ne: "names \<noteq> []"
    have "snd (download_step w a fs new_images) (zip_filepath_of w a)
          = Some (Zip (List.map_filter (archive_member (fst (snd pool)) (temp_download_dir_of a)) names))"
      using assms(2) c ne zip_outside_temp[of a w]
      by (simp add: download_step_def Let_def pool_def[symmetric] clear_directory_def create_zip_archive_def)
    then show "\<exists>members. snd (download_step w a fs new_images) (zip_filepath_of w a) = Some (Zip members)
                              \<and> map fst members = names"
      using archive_all_present[OF present] by simp
  }
  {
    assume e: "names = []"
    have "last (zip_filepath_of w a) \<noteq> CHR ''g''" by (simp add: last_zip_path)
    from run_units_frame[OF this] show "snd (download_step w a fs new_images) (zip_filepath_of w a) = fs (zip_filepath_of w a)"
      using assms(2) c[unfolded pool_def] e zip_outside_temp[of a w]
      by (simp add: download_step_def Let_def clear_directory_def)
  }
qed

subsection \<open>Sample entries\<close>

lemma sample_zip_path: "zip_filepath_of sample_world sample_args = ''out/civitai_ann_new_20240501.zip''"
  by (simp add: zip_filepath_of_def sample_args_def sample_world_def path_join_def)

lemma sample_quality: "jpeg_quality sample_args = 85"
  by (simp add: sample_args_def)

lemma grey_unit:
  "download_and_convert_image sample_world grey_entry ''out/new_images_temp'' 85 (Map.empty, pr)
     = Inr (Message, Map.empty, pr\<lparr>count_n := count_n pr + 1\<rparr>)"
  by (simp add: download_and_convert_image_def grey_entry_def sample_world_def flattened_def
      convert_rgb_def jpeg_name_def path_join_def)

lemma unnamed_pool:
  "run_units sample_world ''out/new_images_temp'' 85 [anonymous_entry, broken_entry] (Map.empty, pr)
     = ([Inr Converted, Inr Message],
        [''out/new_images_temp/unknown_5.jpeg'' \<mapsto> Data ''jpeg:rgb''],
        pr\<lparr>count_n := count_n pr + 2\<rparr>)"
  by (simp add: sample_units)

lemma unnamed_collect:
  "collect_results (zip [anonymous_entry, broken_entry] [Inr Converted, Inr Message]) [] = Inr []"
  by (simp add: appended_name_def report_exception_def anonymous_entry_def)

text \<open>
  Claim C2 asks that, when one of the units fails, the files of the other units are
  listed for the archiver and archived. The code at a failing input: of two added entries
  the second cannot be fetched and the first has no \<^verbatim>\<open>username\<close>. The unit of the first
  entry falls back to the name \<^verbatim>\<open>unknown\<close>, converts the picture and writes
  \<^verbatim>\<open>unknown_5.jpeg\<close>; line 206 then reads \<^verbatim>\<open>img_data['username']\<close>, the \<^verbatim>\<open>KeyError\<close> is
  swallowed by the handler of line 207, the list of names stays empty and no archive is
  written.
\<close>

theorem one_failure_loses_unnamed_sibling:
  "run_units sample_world (temp_download_dir_of sample_args) (jpeg_quality sample_args)
       [anonymous_entry, broken_entry] (Map.empty, \<lparr>count_n = 0, total_n = 2\<rparr>)
     = ([Inr Converted, Inr Message],
        [''out/new_images_temp/unknown_5.jpeg'' \<mapsto> Data ''jpeg:rgb''],
        \<lparr>count_n = 2, total_n = 2\<rparr>)
   \<and> collect_results [(anonymous_entry, Inr Converted), (broken_entry, Inr Message)] [] = Inr []
   \<and> fst (download_step sample_world sample_args Map.empty [anonymous_entry, broken_entry]) = None
   \<and> snd (download_step sample_world sample_args Map.empty [anonymous_entry, broken_entry])
        (zip_filepath_of sample_world sample_args) = None"
proof -
  have r: "run_units sample_world (temp_download_dir_of sample_args) (jpeg_quality sample_args)
       [anonymous_entry, broken_entry] (Map.empty, \<lparr>count_n = 0, total_n = 2\<rparr>)
     = ([Inr Converted, Inr Message],
        [''out/new_images_temp/unknown_5.jpeg'' \<mapsto> Data ''jpeg:rgb''],
        \<lparr>count_n = 2, total_n = 2\<rparr>)"
    unfolding sample_temp_dir sample_quality unnamed_pool by simp
  have c: "collect_results [(anonymous_entry, Inr Converted), (broken_entry, Inr Message)] [] = Inr []"
    using unnamed_collect by simp
  have d: "download_step sample_world sample_args Map.empty [anonymous_entry, broken_entry]
      = (None, clear_directory [''out/new_images_temp/unknown_5.jpeg'' \<mapsto> Data ''jpeg:rgb''] ''out/new_images_temp'')"
    unfolding download_step_def Let_def sample_temp_dir sample_quality unnamed_pool
    by (simp add: unnamed_collect[simplified])
  show ?thesis using r c d by (simp add: sample_zip_path clear_directory_def)
qed

text \<open>
  Claim C7 asks that a picture with an alpha channel, in any mode that has one, is
  flattened before it is encoded. The code at a failing input: a picture of mode LA
  (grey with alpha) is not converted, since line 69 tests for RGBA only; it reaches the
  encoder as it is, and with an encoder that takes the modes PIL's JPEG writer takes the
  unit fails. A picture of mode RGBA is converted.
\<close>

theorem grey_alpha_not_flattened:
  "image_open sample_world ''la-bytes'' = Some \<lparr>mode = ''LA'', pixels = ''la''\<rparr>
   \<and> flattened sample_world \<lparr>mode = ''LA'', pixels = ''la''\<rparr> = \<lparr>mode = ''LA'', pixels = ''la''\<rparr>
   \<and> flattened sample_world \<lparr>mode = ''RGBA'', pixels = ''rgba''\<rparr> = \<lparr>mode = ''RGB'', pixels = ''rgb''\<rparr>
   \<and> run_units sample_world ''out/new_images_temp'' 85 [grey_entry] (Map.empty, \<lparr>count_n = 0, total_n = 1\<rparr>)
       = ([Inr Message], Map.empty, \<lparr>count_n = 1, total_n = 1\<rparr>)"
proof -
  have a: "image_open sample_world ''la-bytes'' = Some \<lparr>mode = ''LA'', pixels = ''la''\<rparr>"
    by (simp add: sample_world_def)
  have b: "flattened sample_world \<lparr>mode = ''LA'', pixels = ''la''\<rparr> = \<lparr>mode = ''LA'', pixels = ''la''\<rparr>"
    "flattened sample_world \<lparr>mode = ''RGBA'', pixels = ''rgba''\<rparr> = \<lparr>mode = ''RGB'', pixels = ''rgb''\<rparr>"
    by (simp_all add: flattened_def convert_rgb_def sample_world_def)
  have c: "run_units sample_world ''out/new_images_temp'' 85 [grey_entry] (Map.empty, \<lparr>count_n = 0, total_n = 1\<rparr>)
       = ([Inr Message], Map.empty, \<lparr>count_n = 1, total_n = 1\<rparr>)"
    by (simp add: grey_unit)
  from a b c show ?thesis by blast
qed

end
